theory Spec2Isabelle
  imports Complex_Main
begin

section \<open>Python values\<close>

text \<open>
  The orchestrator moves untyped Python values around (\<open>Dict[str, Any]\<close>): the request
  payload, the decoded analysis and the entries of the status store. \<open>pyval\<close> is the
  part of Python's value universe the code touches. A nested dict is an association list
  with unique keys. \<open>PIso t\<close> stands for the string \<open>datetime.isoformat()\<close> returns for
  the instant \<open>t\<close> (microseconds, the resolution of \<open>datetime\<close>); every other string is
  a \<open>PStr\<close>. \<open>PFloat\<close> carries the exact rational value; binary floating point is
  not modelled.
\<close>

datatype pyval =
    PNone
  | PBool bool
  | PInt int
  | PFloat rat
  | PStr string
  | PIso int
  | PList "pyval list"
  | PDict "(string \<times> pyval) list"

text \<open>Python's truth value testing, as used by \<open>if x:\<close> and \<open>if not x:\<close>.\<close>

fun truthy :: "pyval \<Rightarrow> bool" where
  "truthy PNone = False"
| "truthy (PBool b) = b"
| "truthy (PInt i) = (i \<noteq> 0)"
| "truthy (PFloat r) = (r \<noteq> 0)"
| "truthy (PStr s) = (s \<noteq> [])"
| "truthy (PIso t) = True"
| "truthy (PList xs) = (xs \<noteq> [])"
| "truthy (PDict d) = (d \<noteq> [])"

fun type_name :: "pyval \<Rightarrow> string" where
  "type_name PNone = ''NoneType''"
| "type_name (PBool b) = ''bool''"
| "type_name (PInt i) = ''int''"
| "type_name (PFloat r) = ''float''"
| "type_name (PStr s) = ''str''"
| "type_name (PIso t) = ''str''"
| "type_name (PList xs) = ''list''"
| "type_name (PDict d) = ''dict''"

text \<open>
  Exceptions, by class and message. \<open>exn_str\<close> is \<open>str(e)\<close>; for a \<open>KeyError\<close> that is
  the repr of the missing key.
\<close>

datatype exn =
    ValueError string
  | Exception string
  | KeyError string
  | AttributeError string
  | TypeError string

fun exn_str :: "exn \<Rightarrow> string" where
  "exn_str (ValueError m) = m"
| "exn_str (Exception m) = m"
| "exn_str (KeyError k) = [CHR 0x27] @ k @ [CHR 0x27]"
| "exn_str (AttributeError m) = m"
| "exn_str (TypeError m) = m"

text \<open>\<open>d.get(k, default)\<close> on a nested dict, and on an arbitrary value, where anything
  but a dict has no attribute \<open>get\<close>.\<close>

definition dict_get :: "(string \<times> pyval) list \<Rightarrow> string \<Rightarrow> pyval \<Rightarrow> pyval" where
  "dict_get d k dflt = (case map_of d k of Some v \<Rightarrow> v | None \<Rightarrow> dflt)"

fun py_get :: "pyval \<Rightarrow> string \<Rightarrow> pyval \<Rightarrow> exn + pyval" where
  "py_get (PDict d) k dflt = Inr (dict_get d k dflt)"
| "py_get v k dflt =
     Inl (AttributeError ([CHR 0x27] @ type_name v @ [CHR 0x27] @ '' object has no attribute ''
          @ [CHR 0x27] @ ''get'' @ [CHR 0x27]))"

text \<open>\<open>d[k] = v\<close> on a nested dict: an existing key keeps its place.\<close>

fun dict_set :: "(string \<times> pyval) list \<Rightarrow> string \<Rightarrow> pyval \<Rightarrow> (string \<times> pyval) list" where
  "dict_set [] k v = [(k, v)]"
| "dict_set ((k', v') # d) k v = (if k' = k then (k, v) # d else (k', v') # dict_set d k v)"

section \<open>The status store\<close>

text \<open>
  \<open>analysis_status_store: Dict[str, Dict[str, Any]]\<close> is a module-level dict from job id
  to the job's entry, itself a dict. Both are maps here. \<open>entry_get\<close> is \<open>entry.get(k)\<close>,
  which is \<open>None\<close> for a missing key.
\<close>

type_synonym entry = "string \<rightharpoonup> pyval"
type_synonym store = "string \<rightharpoonup> entry"

definition entry_get :: "entry \<Rightarrow> string \<Rightarrow> pyval" where
  "entry_get e k = (case e k of Some v \<Rightarrow> v | None \<Rightarrow> PNone)"

text \<open>Lines 42 to 50: \<open>analysis_status_store[analysis_id] = {...}\<close>, an unconditional
  assignment; \<open>now\<close> is the reading of \<open>datetime.utcnow()\<close>.\<close>

definition initial_entry :: "string \<Rightarrow> int \<Rightarrow> entry" where
  "initial_entry analysis_id now =
     [''analysis_id'' \<mapsto> PStr analysis_id,
      ''status'' \<mapsto> PStr ''started'',
      ''progress'' \<mapsto> PStr ''Initializing...'',
      ''started_at'' \<mapsto> PIso now,
      ''completed_at'' \<mapsto> PNone,
      ''error'' \<mapsto> PNone,
      ''result'' \<mapsto> PNone]"

definition init_status :: "store \<Rightarrow> string \<Rightarrow> int \<Rightarrow> store" where
  "init_status st analysis_id now = st(analysis_id \<mapsto> initial_entry analysis_id now)"

text \<open>Lines 180 to 187 (the log line has no effect on the store).\<close>

definition update_status :: "store \<Rightarrow> string \<Rightarrow> string \<Rightarrow> string \<Rightarrow> store" where
  "update_status st analysis_id status progress =
     (case st analysis_id of
        Some e \<Rightarrow> st(analysis_id \<mapsto> e(''status'' \<mapsto> PStr status, ''progress'' \<mapsto> PStr progress))
      | None \<Rightarrow> st)"

text \<open>
  Lines 141 and 160: \<open>analysis_status_store[analysis_id].update({...})\<close>. The subscript
  raises \<open>KeyError\<close> when the id is absent; otherwise the fields are merged in order.
\<close>

definition entry_update :: "store \<Rightarrow> string \<Rightarrow> (string \<times> pyval) list \<Rightarrow> exn + store" where
  "entry_update st analysis_id fields =
     (case st analysis_id of
        None \<Rightarrow> Inl (KeyError analysis_id)
      | Some e \<Rightarrow> Inr (st(analysis_id \<mapsto> fold (\<lambda>(k, v) m. m(k \<mapsto> v)) fields e)))"

section \<open>Duration accounting\<close>

text \<open>
  \<open>datetime.fromisoformat\<close> inverts \<open>isoformat\<close>; any other string is a \<open>ValueError\<close>
  and a value that is not a string a \<open>TypeError\<close>.
\<close>

fun fromisoformat :: "pyval \<Rightarrow> exn + int" where
  "fromisoformat (PIso t) = Inr t"
| "fromisoformat (PStr s) = Inl (ValueError (''Invalid isoformat string: '' @ s))"
| "fromisoformat v = Inl (TypeError ''fromisoformat: argument must be str'')"

text \<open>\<open>timedelta.total_seconds()\<close> of a difference in microseconds, and \<open>round(x, 2)\<close>:
  the closest multiple of one hundredth, a tie going to the even one.\<close>

definition total_seconds :: "int \<Rightarrow> rat" where
  "total_seconds us = of_int us / 1000000"

definition round_half_even :: "rat \<Rightarrow> int" where
  "round_half_even x =
     (let f = \<lfloor>x\<rfloor>; d = x - of_int f
      in if d < 1 / 2 then f else if 1 / 2 < d then f + 1 else if even f then f else f + 1)"

definition round2 :: "rat \<Rightarrow> rat" where
  "round2 x = of_int (round_half_even (x * 100)) / 100"

text \<open>Lines 190 to 201; \<open>now\<close> is the reading of \<open>datetime.utcnow()\<close> on line 200.\<close>

definition calculate_duration :: "store \<Rightarrow> string \<Rightarrow> int \<Rightarrow> exn + pyval" where
  "calculate_duration st analysis_id now =
     (case st analysis_id of
        None \<Rightarrow> Inr (PInt 0)
      | Some e \<Rightarrow>
          (let started = entry_get e ''started_at''
           in if \<not> truthy started then Inr (PInt 0)
              else (case fromisoformat started of
                      Inl err \<Rightarrow> Inl err
                    | Inr start_dt \<Rightarrow> Inr (PFloat (round2 (total_seconds (now - start_dt)))))))"

section \<open>Regular expressions\<close>

text \<open>
  The parser uses \<open>re.search\<close> with two patterns. Their constructs are the type \<open>rx\<close>;
  \<open>rmatch\<close> is a backtracking matcher in continuation style with Python's priorities: a
  greedy quantifier tries the longer match first, a lazy one the shorter, and the first
  complete match wins. The continuation receives the text captured by group 1 so far and
  the rest of the input.
\<close>

datatype rx =
    Lit string
  | Cls "char \<Rightarrow> bool"
  | Sq rx rx
  | Opt rx
  | Star "char \<Rightarrow> bool"
  | LazyStar "char \<Rightarrow> bool"
  | Grp rx

fun rmatch :: "rx \<Rightarrow> string \<Rightarrow> string option \<Rightarrow> (string option \<Rightarrow> string \<Rightarrow> 'a option) \<Rightarrow> 'a option" where
  "rmatch (Lit w) s g k = (if take (length w) s = w then k g (drop (length w) s) else None)"
| "rmatch (Cls P) s g k = (case s of [] \<Rightarrow> None | c # cs \<Rightarrow> if P c then k g cs else None)"
| "rmatch (Sq a b) s g k = rmatch a s g (\<lambda>g' s'. rmatch b s' g' k)"
| "rmatch (Opt a) s g k = (case rmatch a s g k of Some x \<Rightarrow> Some x | None \<Rightarrow> k g s)"
| "rmatch (Star P) s g k =
     (case s of
        [] \<Rightarrow> k g []
      | c # cs \<Rightarrow>
          if P c then (case rmatch (Star P) cs g k of Some x \<Rightarrow> Some x | None \<Rightarrow> k g s)
          else k g s)"
| "rmatch (LazyStar P) s g k =
     (case k g s of
        Some x \<Rightarrow> Some x
      | None \<Rightarrow> (case s of [] \<Rightarrow> None | c # cs \<Rightarrow> if P c then rmatch (LazyStar P) cs g k else None))"
| "rmatch (Grp a) s g k = rmatch a s g (\<lambda>g' s'. k (Some (take (length s - length s') s)) s')"

text \<open>\<open>re.search\<close>: the leftmost start with a match; the result is \<open>group(0)\<close> and
  \<open>group(1)\<close>, the latter \<open>None\<close> when the group took no part.\<close>

definition match_at :: "rx \<Rightarrow> string \<Rightarrow> (string \<times> string option) option" where
  "match_at r s = rmatch r s None (\<lambda>g s'. Some (take (length s - length s') s, g))"

fun re_search :: "rx \<Rightarrow> string \<Rightarrow> (string \<times> string option) option" where
  "re_search r [] = match_at r []"
| "re_search r (c # cs) =
     (case match_at r (c # cs) of Some x \<Rightarrow> Some x | None \<Rightarrow> re_search r cs)"

text \<open>\<open>\s\<close> in a \<open>str\<close> pattern is Unicode white space; below code point 256 that is
  9 to 13, 28 to 32, 133 and 160. \<open>[\s\S]\<close> is any character.\<close>

definition is_space :: "char \<Rightarrow> bool" where
  "is_space c =
     (let n = (of_char c :: nat)
      in (9 \<le> n \<and> n \<le> 13) \<or> (28 \<le> n \<and> n \<le> 32) \<or> n = 133 \<or> n = 160)"

definition any_char :: "char \<Rightarrow> bool" where
  "any_char c = True"

definition fence :: string where
  "fence = [CHR 0x60, CHR 0x60, CHR 0x60]"

text \<open>Line 179: three backquotes, \<open>(?:json)?\s*([\s\S]*?)\s*\<close>, three backquotes.\<close>

definition fence_rx :: rx where
  "fence_rx =
     Sq (Lit fence)
       (Sq (Opt (Lit ''json''))
         (Sq (Star is_space)
           (Sq (Grp (LazyStar any_char))
             (Sq (Star is_space) (Lit fence)))))"

text \<open>Line 187: \<open>\{[\s\S]*\}\<close>.\<close>

definition brace_rx :: rx where
  "brace_rx = Sq (Cls (\<lambda>c. c = CHR ''{'')) (Sq (Star any_char) (Cls (\<lambda>c. c = CHR ''}'')))"

section \<open>The response parser\<close>

text \<open>
  Lines 163 to 194. \<open>json.loads\<close> is a parameter: \<open>loads s = None\<close> stands for
  \<open>JSONDecodeError\<close>, the exception the three handlers catch. \<open>json.loads\<close> of a group
  that took no part in the match would be a \<open>TypeError\<close>, which no handler catches.
\<close>

definition loads_group :: "(string \<Rightarrow> pyval option) \<Rightarrow> string option \<Rightarrow> exn + pyval option" where
  "loads_group loads g =
     (case g of
        None \<Rightarrow> Inl (TypeError ''the JSON object must be str, bytes or bytearray, not NoneType'')
      | Some s \<Rightarrow> Inr (loads s))"

definition parse_brace :: "(string \<Rightarrow> pyval option) \<Rightarrow> string \<Rightarrow> exn + pyval" where
  "parse_brace loads text =
     (case re_search brace_rx text of
        None \<Rightarrow> Inr PNone
      | Some (g0, g1) \<Rightarrow> (case loads g0 of Some v \<Rightarrow> Inr v | None \<Rightarrow> Inr PNone))"

definition parse_fence :: "(string \<Rightarrow> pyval option) \<Rightarrow> string \<Rightarrow> exn + pyval" where
  "parse_fence loads text =
     (case re_search fence_rx text of
        None \<Rightarrow> parse_brace loads text
      | Some (g0, g1) \<Rightarrow>
          (case loads_group loads g1 of
             Inl e \<Rightarrow> Inl e
           | Inr (Some v) \<Rightarrow> Inr v
           | Inr None \<Rightarrow> parse_brace loads text))"

definition parse_analysis_json :: "(string \<Rightarrow> pyval option) \<Rightarrow> string \<Rightarrow> exn + pyval" where
  "parse_analysis_json loads text =
     (case loads text of Some v \<Rightarrow> Inr v | None \<Rightarrow> parse_fence loads text)"

subsection \<open>The strategies in words\<close>

text \<open>
  The second and third strategy as the specification words them, without regular
  expressions. \<open>split_on w s\<close> cuts \<open>s\<close> at the first occurrence of \<open>w\<close>. The inner content
  of a fenced block is what lies between the first fence marker, with its optional
  \<open>json\<close> tag, and the next marker, without the white space at either end. The brace
  span runs from the first opening brace to the last closing brace after it.
\<close>

fun split_on :: "string \<Rightarrow> string \<Rightarrow> (string \<times> string) option" where
  "split_on w [] = (if w = [] then Some ([], []) else None)"
| "split_on w (c # cs) =
     (if take (length w) (c # cs) = w then Some ([], drop (length w) (c # cs))
      else map_option (\<lambda>(a, b). (c # a, b)) (split_on w cs))"







subsection \<open>Scanning functions\<close>




definition at_fence :: "string \<Rightarrow> bool" where
  "at_fence s = (take (length fence) s = fence)"

section \<open>The analyzer\<close>

record settings =
  ANTHROPIC_API_KEY :: string
  CLAUDE_MODEL :: string
  CLAUDE_MAX_TOKENS :: int
  CALLBACK_TIMEOUT :: int
  REPORTS_DIR :: string

record analysis_result =
  ar_success :: bool
  ar_analysis_data :: pyval
  ar_raw_response :: "string option"
  ar_tokens_used :: "int option"
  ar_error :: "string option"

text \<open>
  What the body of the \<open>try\<close> of \<open>analyze_policy\<close> gets from the model API, up to line
  114: an \<open>anthropic.APIError\<close>, any other exception, or the raw text with the number of
  tokens used.
\<close>

datatype api_outcome = APIError string | APIRaised exn | APIResponse string int

definition analysis_failure :: "string \<Rightarrow> analysis_result" where
  "analysis_failure msg =
     \<lparr>ar_success = False, ar_analysis_data = PNone, ar_raw_response = None,
      ar_tokens_used = None, ar_error = Some msg\<rparr>"

definition analysis_success :: "pyval \<Rightarrow> string \<Rightarrow> int \<Rightarrow> analysis_result" where
  "analysis_success data raw_text tokens =
     \<lparr>ar_success = True, ar_analysis_data = data, ar_raw_response = Some raw_text,
      ar_tokens_used = Some tokens, ar_error = None\<rparr>"

text \<open>\<open>v[k] = x\<close> on an arbitrary value: only a dict takes a string key.\<close>

fun setitem :: "pyval \<Rightarrow> string \<Rightarrow> pyval \<Rightarrow> exn + pyval" where
  "setitem (PDict d) k x = Inr (PDict (dict_set d k x))"
| "setitem (PList xs) k x = Inl (TypeError ''list indices must be integers or slices, not str'')"
| "setitem v k x =
     Inl (TypeError ([CHR 0x27] @ type_name v @ [CHR 0x27]
          @ '' object does not support item assignment''))"

definition bnd :: "exn + 'a \<Rightarrow> ('a \<Rightarrow> exn + 'b) \<Rightarrow> exn + 'b" where
  "bnd r f = (case r of Inl e \<Rightarrow> Inl e | Inr v \<Rightarrow> f v)"

text \<open>Lines 121 to 139: the metadata is attached, then the log line on line 132 reads
  the score through three \<open>get\<close> calls, all inside the \<open>try\<close>.\<close>

definition enrich :: "settings \<Rightarrow> pyval \<Rightarrow> pyval \<Rightarrow> pyval \<Rightarrow> pyval \<Rightarrow> pyval \<Rightarrow> int \<Rightarrow> exn + pyval" where
  "enrich cfg analysis_data client_name client_industry policy_type is_renewal tokens =
     bnd (setitem analysis_data ''_metadata''
            (PDict [(''client_name'', client_name),
                    (''client_industry'', client_industry),
                    (''policy_type'', policy_type),
                    (''is_renewal'', is_renewal),
                    (''model_used'', PStr (CLAUDE_MODEL cfg)),
                    (''tokens_used'', PInt tokens)]))
       (\<lambda>enriched.
          bnd (py_get enriched ''executive_summary'' (PDict []))
            (\<lambda>exec_summary.
               bnd (py_get exec_summary ''key_metrics'' (PDict []))
                 (\<lambda>key_metrics.
                    bnd (py_get key_metrics ''overall_maturity_score'' (PStr ''N/A''))
                      (\<lambda>score. Inr enriched))))"

text \<open>Lines 101 to 161. Every exception raised inside the \<open>try\<close> ends in a failure
  result.\<close>

definition analyze_body ::
  "settings \<Rightarrow> (string \<Rightarrow> pyval option) \<Rightarrow> api_outcome \<Rightarrow>
   pyval \<Rightarrow> pyval \<Rightarrow> pyval \<Rightarrow> pyval \<Rightarrow> analysis_result" where
  "analyze_body cfg loads api client_name client_industry policy_type is_renewal =
        (case api of
           APIError m \<Rightarrow> analysis_failure (''API error: '' @ m)
         | APIRaised e \<Rightarrow> analysis_failure (exn_str e)
         | APIResponse raw_text tokens_used \<Rightarrow>
             (case parse_analysis_json loads raw_text of
                Inl e \<Rightarrow> analysis_failure (exn_str e)
              | Inr analysis_data \<Rightarrow>
                  if truthy analysis_data then
                    (case enrich cfg analysis_data client_name client_industry policy_type
                            is_renewal tokens_used of
                       Inl e \<Rightarrow> analysis_failure (exn_str e)
                     | Inr enriched \<Rightarrow> analysis_success enriched raw_text tokens_used)
                  else
                    analysis_success (PDict [(''raw_analysis'', PStr raw_text)])
                      raw_text tokens_used))"

text \<open>
  Lines 42 to 99. Without an API key the result is a failure. The system prompt is built
  before the \<open>try\<close>: \<open>get_analysis_prompt\<close> looks the industry up in a dict, which
  raises \<open>TypeError\<close> for a key that cannot be hashed (a list or a dict), and that
  exception leaves \<open>analyze_policy\<close>.
\<close>

fun hashable :: "pyval \<Rightarrow> bool" where
  "hashable (PList xs) = False"
| "hashable (PDict d) = False"
| "hashable v = True"

definition analyze_policy ::
  "settings \<Rightarrow> (string \<Rightarrow> pyval option) \<Rightarrow> api_outcome \<Rightarrow>
   pyval \<Rightarrow> pyval \<Rightarrow> pyval \<Rightarrow> pyval \<Rightarrow> exn + analysis_result" where
  "analyze_policy cfg loads api client_name client_industry policy_type is_renewal =
     (if ANTHROPIC_API_KEY cfg = [] then
        Inr (analysis_failure ''Anthropic API key not configured'')
      else if \<not> hashable client_industry then
        Inl (TypeError (''unhashable type: '' @ [CHR 0x27] @ type_name client_industry
                        @ [CHR 0x27]))
      else
        Inr (analyze_body cfg loads api client_name client_industry policy_type is_renewal))"

section \<open>Callback delivery\<close>

text \<open>
  Lines 204 to 222. The request handed to \<open>session.post\<close> is a record; what the attempt
  yields (a response with its status code, or an exception) is the parameter \<open>post\<close>.
  The three log lines are a datatype, with the level the source logs them at.
\<close>

record post_request =
  pr_url :: pyval
  pr_json :: pyval
  pr_headers :: "(string \<times> string) list"
  pr_timeout :: int

datatype log_level = INFO | WARNING | ERROR

datatype callback_log = CallbackSent | CallbackReturnedStatus nat | CallbackFailed string

fun level_of :: "callback_log \<Rightarrow> log_level" where
  "level_of CallbackSent = INFO"
| "level_of (CallbackReturnedStatus n) = WARNING"
| "level_of (CallbackFailed m) = ERROR"

record callback_run =
  cb_posts :: "post_request list"
  cb_log :: "callback_log list"
  cb_raised :: "exn option"

definition send_callback ::
  "settings \<Rightarrow> (post_request \<Rightarrow> exn + nat) \<Rightarrow> pyval \<Rightarrow> pyval \<Rightarrow> callback_run" where
  "send_callback cfg post callback_url result =
     (let request = \<lparr>pr_url = callback_url, pr_json = result,
                     pr_headers = [(''Content-Type'', ''application/json'')],
                     pr_timeout = CALLBACK_TIMEOUT cfg\<rparr>
      in (case post request of
            Inr status \<Rightarrow>
              \<lparr>cb_posts = [request],
               cb_log = [if status = 200 then CallbackSent else CallbackReturnedStatus status],
               cb_raised = None\<rparr>
          | Inl e \<Rightarrow>
              \<lparr>cb_posts = [request], cb_log = [CallbackFailed (exn_str e)], cb_raised = None\<rparr>))"

section \<open>The orchestrator\<close>

text \<open>
  The collaborators whose code is not part of the pipeline driver are the fields of
  \<open>env\<close>: the extractor and the report generator return their result objects, the model
  API and the callback endpoint answer as described above, and each call of
  \<open>datetime.utcnow()\<close> has its own reading. The decoder \<open>json.loads\<close> is a field too.
\<close>

record extraction =
  ex_success :: bool
  ex_text :: string
  ex_page_count :: nat
  ex_error :: "string option"

record report_result =
  rr_success :: bool
  rr_report_path :: pyval
  rr_error :: "string option"

record env =
  cfg :: settings
  now_started :: int
  now_completed :: int
  now_duration :: int
  now_failed :: int
  now_failed_callback :: int
  extract_from_file :: "pyval \<Rightarrow> extraction"
  extract_from_url :: "pyval \<Rightarrow> extraction"
  messages_create :: "string \<Rightarrow> pyval \<Rightarrow> pyval \<Rightarrow> pyval \<Rightarrow> pyval \<Rightarrow> api_outcome"
  json_loads :: "string \<Rightarrow> pyval option"
  generate_report :: "pyval \<Rightarrow> string \<Rightarrow> report_result"
  post :: "post_request \<Rightarrow> exn + nat"

text \<open>The calls the run makes to its collaborators, in order.\<close>

datatype event =
    ExtractFromFile pyval
  | ExtractFromUrl pyval
  | AnalyzePolicy string
  | GenerateReport pyval
  | StoreAnalysisResult pyval string pyval
  | SendCallback callback_run

fun is_collaborator_call :: "event \<Rightarrow> bool" where
  "is_collaborator_call (SendCallback c) = False"
| "is_collaborator_call ev = True"

text \<open>
  A run leaves the store, the store after each of its writes (oldest first), its calls,
  and the exception that leaves the function, if any.
\<close>

record run_state =
  rs_store :: store
  rs_trace :: "store list"
  rs_events :: "event list"
  rs_raised :: "exn option"

definition payload_get :: "(string \<rightharpoonup> pyval) \<Rightarrow> string \<Rightarrow> pyval \<Rightarrow> pyval" where
  "payload_get payload k dflt = (case payload k of Some v \<Rightarrow> v | None \<Rightarrow> dflt)"

definition opt_str :: "string option \<Rightarrow> string" where
  "opt_str m = (case m of None \<Rightarrow> ''None'' | Some s \<Rightarrow> s)"

text \<open>Lines 63 to 73. The extractor gets \<open>str(file_url)\<close>, which the value of
  \<open>file_url\<close> determines; the model hands it the value.\<close>

definition get_pdf :: "env \<Rightarrow> (string \<rightharpoonup> pyval) \<Rightarrow> exn + extraction \<times> event" where
  "get_pdf env payload =
     (let local_path = payload_get payload ''_local_file_path'' PNone;
          file_url = payload_get payload ''file_url'' PNone
      in if truthy local_path then
           Inr (extract_from_file env local_path, ExtractFromFile local_path)
         else if truthy file_url then
           Inr (extract_from_url env file_url, ExtractFromUrl file_url)
         else Inl (ValueError ''No file path or URL provided''))"

text \<open>Lines 113 to 128.\<close>

definition build_result ::
  "env \<Rightarrow> store \<Rightarrow> string \<Rightarrow> (string \<rightharpoonup> pyval) \<Rightarrow> pyval \<Rightarrow> pyval \<Rightarrow> pyval \<Rightarrow>
   exn + (string \<times> pyval) list" where
  "build_result env st analysis_id payload client_name analysis_data report_path =
     bnd (py_get analysis_data ''executive_summary'' (PDict []))
       (\<lambda>exec_summary.
          bnd (py_get exec_summary ''key_metrics'' (PDict []))
            (\<lambda>key_metrics.
               bnd (py_get key_metrics ''overall_maturity_score'' PNone)
                 (\<lambda>overall_score.
                    bnd (py_get exec_summary ''recommendation'' PNone)
                      (\<lambda>recommendation.
                         bnd (calculate_duration st analysis_id (now_duration env))
                           (\<lambda>duration.
                              Inr
                                [(''analysis_id'', PStr analysis_id),
                                 (''policy_id'', payload_get payload ''policy_id'' PNone),
                                 (''client_id'', payload_get payload ''client_id'' PNone),
                                 (''client_name'', client_name),
                                 (''status'', PStr ''completed''),
                                 (''overall_score'', overall_score),
                                 (''recommendation'', recommendation),
                                 (''report_path'', report_path),
                                 (''analysis_data'', analysis_data),
                                 (''completed_at'', PIso (now_completed env)),
                                 (''processing_time_seconds'', duration)])))))"

text \<open>
  Lines 130 to 154: the result is handed to the result store when the request has a
  policy id, the entry is completed, and the callback is sent when one is configured.
  Lines 130 to 138 stand deeper in the file than the block around them; they are read
  as statements of the \<open>try\<close> body, between the result and the completed update.
  \<open>store_analysis_result\<close> catches what it raises and its answer is not used, so the
  call is recorded and has no other effect on the run.
\<close>

definition finish ::
  "env \<Rightarrow> run_state \<Rightarrow> string \<Rightarrow> (string \<rightharpoonup> pyval) \<Rightarrow> (string \<times> pyval) list \<Rightarrow>
   run_state" where
  "finish env rs analysis_id payload result =
     (let policy_id = payload_get payload ''policy_id'' PNone;
          callback_url = payload_get payload ''callback_url'' PNone;
          stored = (if truthy policy_id
                    then [StoreAnalysisResult policy_id analysis_id (PDict result)]
                    else [])
      in (case entry_update (rs_store rs) analysis_id
                 [(''status'', PStr ''completed''),
                  (''progress'', PStr ''Analysis complete''),
                  (''completed_at'', dict_get result ''completed_at'' PNone),
                  (''result'', PDict result)] of
            Inl e \<Rightarrow> rs\<lparr>rs_events := rs_events rs @ stored, rs_raised := Some e\<rparr>
          | Inr st \<Rightarrow>
              rs\<lparr>rs_store := st,
                 rs_trace := rs_trace rs @ [st],
                 rs_events := rs_events rs @ stored @
                   (if truthy callback_url
                    then [SendCallback
                            (send_callback (cfg env) (post env) callback_url (PDict result))]
                    else [])\<rparr>))"

text \<open>Lines 54 to 57 and 83 to 89: the analyzer is called with the extracted text and
  the metadata of the request, each with its default.\<close>

definition analyze_request ::
  "env \<Rightarrow> (string \<rightharpoonup> pyval) \<Rightarrow> string \<Rightarrow> exn + analysis_result" where
  "analyze_request env payload policy_text =
     (let client_name = payload_get payload ''client_name'' (PStr ''Unknown Client'');
          client_industry = payload_get payload ''client_industry'' (PStr ''Other/General'');
          policy_type = payload_get payload ''policy_type'' (PStr ''cyber'');
          is_renewal = payload_get payload ''renewal'' (PBool False)
      in analyze_policy (cfg env) (json_loads env)
           (messages_create env policy_text client_name client_industry policy_type is_renewal)
           client_name client_industry policy_type is_renewal)"

text \<open>Lines 52 to 154, the body of the \<open>try\<close>; \<open>rs_raised\<close> is the exception that reaches
  the handler.\<close>

definition run_try :: "env \<Rightarrow> store \<Rightarrow> string \<Rightarrow> (string \<rightharpoonup> pyval) \<Rightarrow> run_state" where
  "run_try env st0 analysis_id payload =
     (let client_name = payload_get payload ''client_name'' (PStr ''Unknown Client'');
          st1 = update_status st0 analysis_id ''extracting'' ''Extracting text from PDF...'';
          rs1 = \<lparr>rs_store = st1, rs_trace = [st1], rs_events = [], rs_raised = None\<rparr>
      in (case get_pdf env payload of
            Inl e \<Rightarrow> rs1\<lparr>rs_raised := Some e\<rparr>
          | Inr (extraction, extract_call) \<Rightarrow>
              if \<not> ex_success extraction then
                rs1\<lparr>rs_events := [extract_call],
                    rs_raised := Some (Exception (''PDF extraction failed: ''
                                                   @ opt_str (ex_error extraction)))\<rparr>
              else
                (let st2 = update_status st1 analysis_id ''analyzing''
                             ''Analyzing policy with Claude...'';
                     rs2 = \<lparr>rs_store = st2, rs_trace = [st1, st2],
                            rs_events = [extract_call, AnalyzePolicy (ex_text extraction)],
                            rs_raised = None\<rparr>
                 in (case analyze_request env payload (ex_text extraction) of
                       Inl e \<Rightarrow> rs2\<lparr>rs_raised := Some e\<rparr>
                     | Inr analysis_result \<Rightarrow>
                    if \<not> ar_success analysis_result then
                      rs2\<lparr>rs_raised := Some (Exception (''Claude analysis failed: ''
                                                         @ opt_str (ar_error analysis_result)))\<rparr>
                    else
                      (let analysis_data = ar_analysis_data analysis_result;
                           st3 = update_status st2 analysis_id ''generating''
                                   ''Generating PDF report...'';
                           report_result =
                             generate_report env analysis_data (REPORTS_DIR (cfg env));
                           report_path = (if \<not> rr_success report_result then PNone
                                          else rr_report_path report_result);
                           rs3 = \<lparr>rs_store = st3, rs_trace = [st1, st2, st3],
                                  rs_events = [extract_call, AnalyzePolicy (ex_text extraction),
                                               GenerateReport analysis_data],
                                  rs_raised = None\<rparr>
                       in (case build_result env st3 analysis_id payload client_name
                                  analysis_data report_path of
                             Inl e \<Rightarrow> rs3\<lparr>rs_raised := Some e\<rparr>
                           | Inr result \<Rightarrow> finish env rs3 analysis_id payload result))))))"

text \<open>Lines 156 to 177, the handler; an exception raised here leaves the function.\<close>

definition run_except :: "env \<Rightarrow> run_state \<Rightarrow> string \<Rightarrow> (string \<rightharpoonup> pyval) \<Rightarrow> exn \<Rightarrow> run_state" where
  "run_except env rs analysis_id payload e =
     (let callback_url = payload_get payload ''callback_url'' PNone
      in (case entry_update (rs_store rs) analysis_id
                 [(''status'', PStr ''failed''),
                  (''progress'', PStr ''Analysis failed''),
                  (''error'', PStr (exn_str e)),
                  (''completed_at'', PIso (now_failed env))] of
            Inl key_error \<Rightarrow> rs\<lparr>rs_raised := Some key_error\<rparr>
          | Inr st \<Rightarrow>
              rs\<lparr>rs_store := st,
                 rs_trace := rs_trace rs @ [st],
                 rs_events := rs_events rs @
                   (if truthy callback_url
                    then [SendCallback (send_callback (cfg env) (post env) callback_url
                            (PDict [(''analysis_id'', PStr analysis_id),
                                    (''policy_id'', payload_get payload ''policy_id'' PNone),
                                    (''client_id'', payload_get payload ''client_id'' PNone),
                                    (''status'', PStr ''failed''),
                                    (''error_message'', PStr (exn_str e)),
                                    (''completed_at'', PIso (now_failed_callback env))]))]
                    else []),
                 rs_raised := None\<rparr>))"

text \<open>Lines 25 to 177, from a store in which the entry is whatever \<open>st0\<close> has for the id
  (lines 52 on), and the whole function.\<close>

definition run_from :: "env \<Rightarrow> store \<Rightarrow> string \<Rightarrow> (string \<rightharpoonup> pyval) \<Rightarrow> run_state" where
  "run_from env st0 analysis_id payload =
     (let rs = run_try env st0 analysis_id payload
      in (case rs_raised rs of
            None \<Rightarrow> rs
          | Some e \<Rightarrow> run_except env rs analysis_id payload e))"

definition run_policy_analysis :: "env \<Rightarrow> store \<Rightarrow> string \<Rightarrow> (string \<rightharpoonup> pyval) \<Rightarrow> run_state" where
  "run_policy_analysis env st analysis_id payload =
     (let st0 = init_status st analysis_id (now_started env);
          rs = run_from env st0 analysis_id payload
      in rs\<lparr>rs_trace := st0 # rs_trace rs\<rparr>)"

section \<open>The job invariant\<close>

text \<open>
  A field is null when the entry's \<open>get\<close> yields \<open>None\<close>. The invariant of a job entry:
  \<open>completed_at\<close> is set exactly in a terminal status, \<open>result\<close> exactly when completed.
\<close>

definition terminal :: "pyval \<Rightarrow> bool" where
  "terminal s = (s = PStr ''completed'' \<or> s = PStr ''failed'')"

definition job_inv :: "entry \<Rightarrow> bool" where
  "job_inv e =
     ((entry_get e ''completed_at'' \<noteq> PNone) = terminal (entry_get e ''status'') \<and>
      (entry_get e ''result'' \<noteq> PNone) = (entry_get e ''status'' = PStr ''completed''))"

definition running :: "entry \<Rightarrow> bool" where
  "running e =
     (entry_get e ''completed_at'' = PNone \<and> entry_get e ''result'' = PNone \<and>
      \<not> terminal (entry_get e ''status''))"

section \<open>A sample configuration\<close>

text \<open>
  The defaults of \<open>config.py\<close>, a decoder that knows one document, and collaborators
  that succeed, except that the download of a URL fails. Readings of the clock are in
  microseconds.
\<close>

definition sample_settings :: settings where
  "sample_settings =
     \<lparr>ANTHROPIC_API_KEY = ''sk-test'', CLAUDE_MODEL = ''claude-sonnet-4-20250514'',
      CLAUDE_MAX_TOKENS = 8192, CALLBACK_TIMEOUT = 30, REPORTS_DIR = ''reports''\<rparr>"

definition sample_loads :: "string \<Rightarrow> pyval option" where
  "sample_loads s =
     (if s = [CHR ''{'', CHR 0x22, CHR ''a'', CHR 0x22, CHR '':'', CHR ''1'', CHR ''}'']
      then Some (PDict [(''a'', PInt 1)]) else None)"

definition sample_env :: env where
  "sample_env =
     \<lparr>cfg = sample_settings,
      now_started = 1000000,
      now_completed = 3500000,
      now_duration = 3504999,
      now_failed = 2000000,
      now_failed_callback = 2000100,
      extract_from_file =
        (\<lambda>path. \<lparr>ex_success = True, ex_text = ''policy text'', ex_page_count = 3,
                  ex_error = None\<rparr>),
      extract_from_url =
        (\<lambda>url. \<lparr>ex_success = False, ex_text = [], ex_page_count = 0,
                 ex_error = Some ''download failed''\<rparr>),
      messages_create = (\<lambda>text name industry type renewal. APIResponse ''not json at all'' 1200),
      json_loads = sample_loads,
      generate_report =
        (\<lambda>data dir. \<lparr>rr_success = True, rr_report_path = PStr ''reports/r.pdf'',
                      rr_error = None\<rparr>),
      post = (\<lambda>request. Inr 200)\<rparr>"

definition sample_payload :: "string \<rightharpoonup> pyval" where
  "sample_payload =
     [''client_name'' \<mapsto> PStr ''Acme Corp'', ''_local_file_path'' \<mapsto> PStr ''temp/a.pdf'']"

definition sample_store :: store where
  "sample_store =
     [''job-1'' \<mapsto> initial_entry ''job-1'' 5, ''job-2'' \<mapsto> initial_entry ''job-2'' 7]"


text \<open>A report generator that reports failure.\<close>

definition failing_render :: "pyval \<Rightarrow> string \<Rightarrow> report_result" where
  "failing_render data dir =
     \<lparr>rr_success = False, rr_report_path = PNone, rr_error = Some ''render failed''\<rparr>"

section \<open>The status store: frame, creation, absent ids\<close>

lemma update_status_absent: "st i = None \<Longrightarrow> update_status st i s p = st"
  by (simp add: update_status_def)

lemma update_status_present:
  "st i = Some e \<Longrightarrow>
     update_status st i s p = st(i \<mapsto> e(''status'' \<mapsto> PStr s, ''progress'' \<mapsto> PStr p))"
  by (simp add: update_status_def)

text \<open>
  C10. For a job id present in the store, \<open>_update_status\<close> changes the \<open>status\<close> and
  \<open>progress\<close> fields of that entry and nothing else: every other field of the entry
  (\<open>analysis_id\<close>, \<open>started_at\<close>, \<open>completed_at\<close>, \<open>error\<close>, \<open>result\<close> among them) and
  every entry under another id are as before.
\<close>

theorem update_status_frame:
  assumes "st i = Some e"
  shows "\<exists>e'. update_status st i s p i = Some e' \<and>
           e' ''status'' = Some (PStr s) \<and> e' ''progress'' = Some (PStr p) \<and>
           (\<forall>k. k \<noteq> ''status'' \<and> k \<noteq> ''progress'' \<longrightarrow> e' k = e k) \<and>
           (\<forall>j. j \<noteq> i \<longrightarrow> update_status st i s p j = st j)"
  using assms by (simp add: update_status_def)

theorem update_status_frame_witness:
  "sample_store ''job-1'' = Some (initial_entry ''job-1'' 5) \<and>
   (\<exists>e'. update_status sample_store ''job-1'' ''extracting'' ''Extracting text from PDF...''
            ''job-1'' = Some e' \<and>
      e' ''status'' = Some (PStr ''extracting'') \<and>
      e' ''started_at'' = Some (PIso 5) \<and> e' ''result'' = Some PNone) \<and>
   update_status sample_store ''job-1'' ''extracting'' ''Extracting text from PDF...'' ''job-2''
     = Some (initial_entry ''job-2'' 7)"
proof -
  let ?st = "update_status sample_store ''job-1'' ''extracting'' ''Extracting text from PDF...''"
  have h: "sample_store ''job-1'' = Some (initial_entry ''job-1'' 5)"
    by (simp add: sample_store_def)
  from update_status_frame [of sample_store "''job-1''" "initial_entry ''job-1'' 5"
      "''extracting''" "''Extracting text from PDF...''", OF h]
  obtain e' where e': "?st ''job-1'' = Some e'"
    "e' ''status'' = Some (PStr ''extracting'')"
    "\<forall>k. k \<noteq> ''status'' \<and> k \<noteq> ''progress'' \<longrightarrow> e' k = initial_entry ''job-1'' 5 k"
    "\<forall>j. j \<noteq> ''job-1'' \<longrightarrow> ?st j = sample_store j"
    by blast
  have a: "e' ''started_at'' = Some (PIso 5)" using e'(3) by (simp add: initial_entry_def)
  have b: "e' ''result'' = Some PNone" using e'(3) by (simp add: initial_entry_def)
  have c: "?st ''job-2'' = Some (initial_entry ''job-2'' 7)"
    using e'(4) by (simp add: sample_store_def)
  show ?thesis using h e'(1,2) a b c by simp
qed

text \<open>
  C5, as the code has it. The claim says that creating an entry under an id already in
  the store fails. Lines 42 to 50 assign without looking: in the sample store \<open>job-1\<close>
  has an entry started at 5; a run under that id raises nothing and its first write
  leaves an entry started at the new reading of the clock.
\<close>

theorem creation_replaces_counterexample:
  "map_option (\<lambda>e. entry_get e ''started_at'') (sample_store ''job-1'') = Some (PIso 5) \<and>
   rs_raised (run_policy_analysis sample_env sample_store ''job-1'' sample_payload) = None \<and>
   map_option (\<lambda>e. entry_get e ''started_at'')
     (hd (rs_trace (run_policy_analysis sample_env sample_store ''job-1'' sample_payload)) ''job-1'')
     = Some (PIso 1000000)"
  by code_simp

text \<open>
  C5, amended. Whatever the store holds under the id, present or not, the first write
  of a run puts the fresh entry in state \<open>started\<close> there and leaves every other id as
  it was: creation replaces and never fails.
\<close>

theorem creation_replaces:
  "hd (rs_trace (run_policy_analysis env st i payload)) i
     = Some (initial_entry i (now_started env)) \<and>
   (hd (rs_trace (run_policy_analysis env st i payload)))(i := None) = st(i := None)"
  by (simp add: run_policy_analysis_def Let_def init_status_def)


section \<open>Callback delivery: one attempt\<close>

text \<open>
  C8. For every callback URL and payload, \<open>_send_callback\<close> makes exactly one POST
  attempt, carrying the payload as JSON body, the JSON content-type header and the
  configured timeout. It logs one line: the success line, at level INFO, if and only
  if the response code is 200; any other code or any exception of the attempt gives a
  warning or an error line. There is no second attempt and no exception reaches the
  caller.
\<close>

theorem send_callback_single_attempt:
  "cb_posts (send_callback config http url payload) =
     [\<lparr>pr_url = url, pr_json = payload,
       pr_headers = [(''Content-Type'', ''application/json'')],
       pr_timeout = CALLBACK_TIMEOUT config\<rparr>] \<and>
   cb_raised (send_callback config http url payload) = None \<and>
   (\<exists>entry. cb_log (send_callback config http url payload) = [entry] \<and>
      (entry = CallbackSent) =
        (http \<lparr>pr_url = url, pr_json = payload,
           pr_headers = [(''Content-Type'', ''application/json'')],
           pr_timeout = CALLBACK_TIMEOUT config\<rparr> = Inr 200) \<and>
      (level_of entry = INFO) = (entry = CallbackSent))"
  by (simp add: send_callback_def Let_def split: sum.splits)

theorem send_callback_single_attempt_witness:
  "cb_posts (send_callback sample_settings (\<lambda>r. Inr 503) (PStr ''https://example.test/cb'')
      (PDict [])) =
     [\<lparr>pr_url = PStr ''https://example.test/cb'', pr_json = PDict [],
       pr_headers = [(''Content-Type'', ''application/json'')],
       pr_timeout = 30\<rparr>] \<and>
   cb_log (send_callback sample_settings (\<lambda>r. Inr 503) (PStr ''https://example.test/cb'')
      (PDict []))
     = [CallbackReturnedStatus 503]"
  using send_callback_single_attempt [of sample_settings "\<lambda>r. Inr 503"
      "PStr ''https://example.test/cb''" "PDict []"]
  by (simp add: sample_settings_def send_callback_def)

section \<open>Duration accounting: rounding and sign\<close>









section \<open>The pipeline: invalid requests\<close>

lemma get_pdf_none:
  "\<not> truthy (payload_get payload ''_local_file_path'' PNone) \<Longrightarrow>
   \<not> truthy (payload_get payload ''file_url'' PNone) \<Longrightarrow>
   get_pdf env payload = Inl (ValueError ''No file path or URL provided'')"
  by (simp add: get_pdf_def Let_def)

text \<open>
  C1, as the code has it. The claim asks for the invalid-request error whenever it is
  not the case that exactly one source reference is present. When both are present
  lines 66 to 71 take the local path: the first call goes to the extractor and the job
  completes without error.
\<close>

theorem both_sources_counterexample:
  "truthy (payload_get (sample_payload(''file_url'' \<mapsto> PStr ''https://example.test/a.pdf'')) ''_local_file_path'' PNone) \<and>
   truthy (payload_get (sample_payload(''file_url'' \<mapsto> PStr ''https://example.test/a.pdf'')) ''file_url'' PNone) \<and>
   hd (rs_events (run_policy_analysis sample_env Map.empty ''job-1''
      (sample_payload(''file_url'' \<mapsto> PStr ''https://example.test/a.pdf''))))
     = ExtractFromFile (PStr ''temp/a.pdf'') \<and>
   map_option (\<lambda>e. (entry_get e ''status'', entry_get e ''error''))
     (rs_store (run_policy_analysis sample_env Map.empty ''job-1''
      (sample_payload(''file_url'' \<mapsto> PStr ''https://example.test/a.pdf''))) ''job-1'')
     = Some (PStr ''completed'', PNone)"
  by code_simp

text \<open>
  C1, amended. For every request in which neither source reference is present (both
  \<open>_local_file_path\<close> and \<open>file_url\<close> are missing or falsy), the run fails with the
  error \<open>No file path or URL provided\<close>, recorded in the entry with status \<open>failed\<close>
  and no result, and no call to the extractor, the analyzer, the report generator or
  the result store is made; nothing is raised to the caller.
\<close>

theorem no_source_fails_before_collaborators:
  assumes "\<not> truthy (payload_get payload ''_local_file_path'' PNone)"
    and "\<not> truthy (payload_get payload ''file_url'' PNone)"
  shows "rs_raised (run_policy_analysis env st i payload) = None \<and>
    filter is_collaborator_call (rs_events (run_policy_analysis env st i payload)) = [] \<and>
    (\<exists>e. rs_store (run_policy_analysis env st i payload) i = Some e \<and>
       entry_get e ''status'' = PStr ''failed'' \<and>
       entry_get e ''error'' = PStr ''No file path or URL provided'' \<and>
       entry_get e ''result'' = PNone)"
  using get_pdf_none [OF assms, of env]
  by (simp add: run_policy_analysis_def run_from_def run_try_def run_except_def Let_def
      init_status_def update_status_def entry_update_def entry_get_def initial_entry_def)

theorem no_source_fails_before_collaborators_witness:
  "\<not> truthy (payload_get [''client_name'' \<mapsto> PStr ''Acme Corp'', ''file_url'' \<mapsto> PStr []] ''_local_file_path'' PNone) \<and>
   \<not> truthy (payload_get [''client_name'' \<mapsto> PStr ''Acme Corp'', ''file_url'' \<mapsto> PStr []] ''file_url'' PNone) \<and>
   rs_events (run_policy_analysis sample_env Map.empty ''job-1''
      [''client_name'' \<mapsto> PStr ''Acme Corp'', ''file_url'' \<mapsto> PStr []]) = [] \<and>
   map_option (\<lambda>e. entry_get e ''error'')
     (rs_store (run_policy_analysis sample_env Map.empty ''job-1''
      [''client_name'' \<mapsto> PStr ''Acme Corp'', ''file_url'' \<mapsto> PStr []]) ''job-1'')
     = Some (PStr ''No file path or URL provided'')"
proof -
  let ?p = "[''client_name'' \<mapsto> PStr ''Acme Corp'', ''file_url'' \<mapsto> PStr []]"
  have h: "\<not> truthy (payload_get ?p ''_local_file_path'' PNone)"
    "\<not> truthy (payload_get ?p ''file_url'' PNone)"
    by (simp_all add: payload_get_def)
  have ev: "rs_events (run_policy_analysis sample_env Map.empty ''job-1'' ?p) = []" by code_simp
  from no_source_fails_before_collaborators [OF h, of sample_env Map.empty "''job-1''"]
  show ?thesis using h ev by auto
qed

section \<open>The pipeline: successful analysis\<close>

lemma py_get_Inr:
  "py_get v k dflt = Inr x \<Longrightarrow> \<exists>d. v = PDict d \<and> x = dict_get d k dflt"
  by (cases v) simp_all

lemma setitem_Inr:
  "setitem v k x = Inr y \<Longrightarrow> \<exists>d. v = PDict d \<and> y = PDict (dict_set d k x)"
  by (cases v) simp_all

lemma bnd_Inr: "bnd r f = Inr y \<Longrightarrow> \<exists>v. r = Inr v \<and> f v = Inr y"
  by (cases r) (simp_all add: bnd_def)

lemma enrich_shape:
  assumes "enrich config data cn ci pt ir tok = Inr d'"
  shows "\<exists>d es km. d' = PDict d \<and>
           dict_get d ''executive_summary'' (PDict []) = PDict es \<and>
           dict_get es ''key_metrics'' (PDict []) = PDict km"
proof -
  from assms obtain en where 1: "bnd (py_get en ''executive_summary'' (PDict []))
            (\<lambda>exec_summary.
               bnd (py_get exec_summary ''key_metrics'' (PDict []))
                 (\<lambda>key_metrics.
                    bnd (py_get key_metrics ''overall_maturity_score'' (PStr ''N/A''))
                      (\<lambda>score. Inr en))) = Inr d'"
    unfolding enrich_def by (blast dest: bnd_Inr)
  then obtain es where 2: "py_get en ''executive_summary'' (PDict []) = Inr es"
    "bnd (py_get es ''key_metrics'' (PDict []))
                 (\<lambda>key_metrics.
                    bnd (py_get key_metrics ''overall_maturity_score'' (PStr ''N/A''))
                      (\<lambda>score. Inr en)) = Inr d'"
    by (blast dest: bnd_Inr)
  then obtain km where 3: "py_get es ''key_metrics'' (PDict []) = Inr km"
    "bnd (py_get km ''overall_maturity_score'' (PStr ''N/A'')) (\<lambda>score. Inr en) = Inr d'"
    by (blast dest: bnd_Inr)
  then obtain sc where 4: "py_get km ''overall_maturity_score'' (PStr ''N/A'') = Inr sc" "en = d'"
    by (blast dest: bnd_Inr)
  from 2(1) obtain d where d: "en = PDict d" "es = dict_get d ''executive_summary'' (PDict [])"
    by (blast dest: py_get_Inr)
  from 3(1) obtain esd where esd: "es = PDict esd" "km = dict_get esd ''key_metrics'' (PDict [])"
    by (blast dest: py_get_Inr)
  from 4(1) obtain kmd where kmd: "km = PDict kmd"
    by (blast dest: py_get_Inr)
  have "d' = PDict d \<and> dict_get d ''executive_summary'' (PDict []) = PDict esd \<and>
        dict_get esd ''key_metrics'' (PDict []) = PDict kmd"
    using d esd kmd 4(2) by simp
  then show ?thesis by blast
qed

lemma analyze_body_shape:
  assumes "ar_success (analyze_body config loads api cn ci pt ir)"
  shows "\<exists>d es km. ar_analysis_data (analyze_body config loads api cn ci pt ir) = PDict d \<and>
           dict_get d ''executive_summary'' (PDict []) = PDict es \<and>
           dict_get es ''key_metrics'' (PDict []) = PDict km"
  using assms
  by (auto simp: analyze_body_def analysis_failure_def analysis_success_def dict_get_def
      split: if_splits api_outcome.splits sum.splits dest: enrich_shape)

lemma build_result_ok:
  assumes "data = PDict d" "dict_get d ''executive_summary'' (PDict []) = PDict es"
    "dict_get es ''key_metrics'' (PDict []) = PDict km"
    "st i = Some e" "e ''started_at'' = Some (PIso t0)"
  shows "\<exists>r. build_result env st i payload cn data rp = Inr r \<and>
           map_of r ''report_path'' = Some rp \<and>
           map_of r ''analysis_data'' = Some data \<and>
           map_of r ''status'' = Some (PStr ''completed'') \<and>
           dict_get r ''completed_at'' PNone = PIso (now_completed env) \<and>
           map_of r ''processing_time_seconds''
             = Some (PFloat (round2 (total_seconds (now_duration env - t0))))"
  using assms
  by (simp add: build_result_def bnd_def calculate_duration_def entry_get_def
      dict_get_def [of "(_ # _)"])


lemma analyze_request_shape:
  assumes "analyze_request env payload policy_text = Inr res" and "ar_success res"
  shows "\<exists>d es km. ar_analysis_data res = PDict d \<and>
           dict_get d ''executive_summary'' (PDict []) = PDict es \<and>
           dict_get es ''key_metrics'' (PDict []) = PDict km"
proof -
  let ?cn = "payload_get payload ''client_name'' (PStr ''Unknown Client'')"
  let ?ci = "payload_get payload ''client_industry'' (PStr ''Other/General'')"
  let ?pt = "payload_get payload ''policy_type'' (PStr ''cyber'')"
  let ?ir = "payload_get payload ''renewal'' (PBool False)"
  have "res = analyze_body (cfg env) (json_loads env)
                (messages_create env policy_text ?cn ?ci ?pt ?ir) ?cn ?ci ?pt ?ir"
    using assms
    by (auto simp: analyze_request_def analyze_policy_def Let_def analysis_failure_def
        split: if_splits)
  then show ?thesis using assms(2) analyze_body_shape by simp
qed

lemma started_entry:
  "\<exists>e. update_status (update_status (update_status (init_status st i now) i s1 p1) i s2 p2) i s3 p3 i
          = Some e \<and> e ''started_at'' = Some (PIso now)"
  by (simp add: update_status_def init_status_def initial_entry_def)

lemma finish_ok:
  assumes "rs_store rs i = Some e"
  shows "rs_raised (finish env rs i payload r) = rs_raised rs \<and>
         (\<exists>e'. rs_store (finish env rs i payload r) i = Some e' \<and>
            entry_get e' ''status'' = PStr ''completed'' \<and>
            entry_get e' ''completed_at'' = dict_get r ''completed_at'' PNone \<and>
            entry_get e' ''result'' = PDict r)"
  using assms by (simp add: finish_def Let_def entry_update_def entry_get_def)

lemma run_completes:
  assumes g: "get_pdf env payload = Inr (x, ev)" and x: "ex_success x"
    and a: "analyze_request env payload (ex_text x) = Inr res" and ok: "ar_success res"
  shows "rs_raised (run_policy_analysis env st i payload) = None \<and>
    (\<exists>e r. rs_store (run_policy_analysis env st i payload) i = Some e \<and>
       entry_get e ''status'' = PStr ''completed'' \<and>
       entry_get e ''completed_at'' = PIso (now_completed env) \<and>
       entry_get e ''result'' = PDict r \<and>
       map_of r ''status'' = Some (PStr ''completed'') \<and>
       map_of r ''analysis_data'' = Some (ar_analysis_data res) \<and>
       map_of r ''report_path'' = Some
         (let report = generate_report env (ar_analysis_data res) (REPORTS_DIR (cfg env))
          in if rr_success report then rr_report_path report else PNone))"
proof -
  let ?data = "ar_analysis_data res"
  let ?rep = "generate_report env ?data (REPORTS_DIR (cfg env))"
  let ?rp = "if \<not> rr_success ?rep then PNone else rr_report_path ?rep"
  let ?st3 = "update_status (update_status (update_status (init_status st i (now_started env)) i
      ''extracting'' ''Extracting text from PDF...'') i ''analyzing''
      ''Analyzing policy with Claude...'') i ''generating'' ''Generating PDF report...''"
  let ?cn = "payload_get payload ''client_name'' (PStr ''Unknown Client'')"
  from analyze_request_shape [OF a ok] obtain d es km where sh: "?data = PDict d"
    "dict_get d ''executive_summary'' (PDict []) = PDict es"
    "dict_get es ''key_metrics'' (PDict []) = PDict km" by blast
  from started_entry obtain e3 where e3: "?st3 i = Some e3"
    "e3 ''started_at'' = Some (PIso (now_started env))" by blast
  from build_result_ok [where st = "?st3" and i = i and env = env and payload = payload
      and cn = "?cn" and rp = "?rp", OF sh e3]
  obtain r where r: "build_result env ?st3 i payload ?cn ?data ?rp = Inr r"
    "map_of r ''report_path'' = Some ?rp" "map_of r ''analysis_data'' = Some ?data"
    "map_of r ''status'' = Some (PStr ''completed'')"
    "dict_get r ''completed_at'' PNone = PIso (now_completed env)" by blast
  let ?rs3 = "\<lparr>rs_store = ?st3, rs_trace = [update_status (init_status st i (now_started env)) i
      ''extracting'' ''Extracting text from PDF...'', update_status (update_status (init_status st i (now_started env)) i
      ''extracting'' ''Extracting text from PDF...'') i ''analyzing''
      ''Analyzing policy with Claude...'', ?st3],
     rs_events = [ev, AnalyzePolicy (ex_text x), GenerateReport ?data], rs_raised = None\<rparr>"
  have t: "run_try env (init_status st i (now_started env)) i payload = finish env ?rs3 i payload r"
    using g x a ok r(1) by (simp add: run_try_def Let_def)
  have s: "rs_store ?rs3 i = Some e3" using e3 by simp
  from finish_ok [where rs = "?rs3" and i = i and env = env and payload = payload and r = r,
      OF s]
  obtain e' where e': "rs_raised (finish env ?rs3 i payload r) = None"
    "rs_store (finish env ?rs3 i payload r) i = Some e'"
    "entry_get e' ''status'' = PStr ''completed''"
    "entry_get e' ''completed_at'' = dict_get r ''completed_at'' PNone"
    "entry_get e' ''result'' = PDict r" by auto
  have run: "run_policy_analysis env st i payload
      = (finish env ?rs3 i payload r)\<lparr>rs_trace := init_status st i (now_started env) #
           rs_trace (finish env ?rs3 i payload r)\<rparr>"
    using t e'(1) by (simp add: run_policy_analysis_def run_from_def Let_def)
  show ?thesis
    unfolding run using e' r by (auto simp: Let_def)
qed



text \<open>
  C7. When extraction and analysis succeed and the report generator reports failure,
  the run still ends with status \<open>completed\<close>: the entry has a result, a dict that
  carries the analysis data and whose \<open>report_path\<close> is \<open>None\<close>.
\<close>

theorem render_failure_nonfatal:
  assumes "get_pdf env payload = Inr (x, ev)" and "ex_success x"
    and "analyze_request env payload (ex_text x) = Inr res" and "ar_success res"
    and "\<not> rr_success (generate_report env (ar_analysis_data res) (REPORTS_DIR (cfg env)))"
  shows "rs_raised (run_policy_analysis env st i payload) = None \<and>
    (\<exists>e r. rs_store (run_policy_analysis env st i payload) i = Some e \<and>
       entry_get e ''status'' = PStr ''completed'' \<and>
       entry_get e ''result'' = PDict r \<and>
       map_of r ''analysis_data'' = Some (ar_analysis_data res) \<and>
       map_of r ''report_path'' = Some PNone)"
  using run_completes [OF assms(1-4), of st i] assms(5) by (auto simp: Let_def)

theorem render_failure_nonfatal_witness:
  "ex_success (fst (projr (get_pdf (sample_env\<lparr>generate_report := failing_render\<rparr>)
      sample_payload))) \<and>
   ar_success (projr (analyze_request (sample_env\<lparr>generate_report := failing_render\<rparr>)
      sample_payload ''policy text'')) \<and>
   \<not> rr_success (failing_render (PDict [(''raw_analysis'', PStr ''not json at all'')])
      ''reports'') \<and>
   (\<exists>e r. rs_store (run_policy_analysis (sample_env\<lparr>generate_report := failing_render\<rparr>)
               Map.empty ''job-1'' sample_payload) ''job-1'' = Some e \<and>
       entry_get e ''status'' = PStr ''completed'' \<and>
       entry_get e ''result'' = PDict r \<and>
       map_of r ''report_path'' = Some PNone)"
proof -
  let ?env = "sample_env\<lparr>generate_report := failing_render\<rparr>"
  let ?x = "\<lparr>ex_success = True, ex_text = ''policy text'', ex_page_count = 3, ex_error = None\<rparr>"
  let ?res = "analysis_success (PDict [(''raw_analysis'', PStr ''not json at all'')])
                ''not json at all'' 1200"
  have 1: "get_pdf ?env sample_payload = Inr (?x, ExtractFromFile (PStr ''temp/a.pdf''))"
    by (simp add: get_pdf_def sample_env_def sample_payload_def payload_get_def)
  have 2: "ex_success ?x" by simp
  have p: "parse_analysis_json sample_loads ''not json at all'' = Inr PNone" by code_simp
  have 3: "analyze_request ?env sample_payload (ex_text ?x) = Inr ?res"
    using p
    by (simp add: analyze_request_def analyze_policy_def analyze_body_def Let_def
        sample_env_def sample_settings_def sample_payload_def payload_get_def)
  have 4: "ar_success ?res" by (simp add: analysis_success_def)
  have 5: "\<not> rr_success (generate_report ?env (ar_analysis_data ?res) (REPORTS_DIR (cfg ?env)))"
    by (simp add: failing_render_def)
  from render_failure_nonfatal [OF 1 2 3 4 5, of Map.empty "''job-1''"] 1 3 4
  show ?thesis by (auto simp: failing_render_def)
qed

section \<open>The pipeline: the job invariant\<close>

lemma running_init: "running (initial_entry i now)"
  by (simp add: running_def initial_entry_def entry_get_def terminal_def)

lemma running_inv: "running e \<Longrightarrow> job_inv e"
  by (auto simp: running_def job_inv_def terminal_def)

lemma update_status_running:
  assumes "st i = Some e" "running e" "\<not> terminal (PStr s)"
  shows "\<exists>e'. update_status st i s p i = Some e' \<and> running e'"
  using assms by (simp add: update_status_def running_def entry_get_def)

lemma build_result_completed_at:
  "build_result env st i payload cn data rp = Inr r \<Longrightarrow>
   dict_get r ''completed_at'' PNone = PIso (now_completed env)"
  by (auto simp: build_result_def dict_get_def dest!: bnd_Inr)

lemma finish_inv:
  assumes "rs_store rs i = Some e" "running e" "dict_get r ''completed_at'' PNone = PIso t"
  shows "rs_raised (finish env rs i payload r) = rs_raised rs \<and>
         rs_trace (finish env rs i payload r) = rs_trace rs @ [rs_store (finish env rs i payload r)] \<and>
         (\<exists>e'. rs_store (finish env rs i payload r) i = Some e' \<and> job_inv e')"
  using assms
  by (simp add: finish_def Let_def entry_update_def entry_get_def job_inv_def terminal_def)

lemma run_except_inv:
  assumes "rs_store rs i = Some e" "running e"
  shows "rs_raised (run_except env rs i payload err) = None \<and>
         rs_trace (run_except env rs i payload err)
           = rs_trace rs @ [rs_store (run_except env rs i payload err)] \<and>
         (\<exists>e'. rs_store (run_except env rs i payload err) i = Some e' \<and> job_inv e')"
  using assms
  by (simp add: run_except_def Let_def entry_update_def entry_get_def job_inv_def terminal_def
      running_def)


lemma run_try_inv:
  assumes ea: "sta i = Some ea" "running ea"
  shows "rs_trace (run_try env sta i payload) \<noteq> [] \<and>
    rs_store (run_try env sta i payload) = last (rs_trace (run_try env sta i payload)) \<and>
    (\<forall>s\<in>set (rs_trace (run_try env sta i payload)). \<exists>e. s i = Some e \<and> job_inv e) \<and>
    (rs_raised (run_try env sta i payload) \<noteq> None \<longrightarrow>
       (\<exists>e. rs_store (run_try env sta i payload) i = Some e \<and> running e))"
proof -
  let ?st1 = "update_status sta i ''extracting'' ''Extracting text from PDF...''"
  let ?st2 = "update_status ?st1 i ''analyzing'' ''Analyzing policy with Claude...''"
  let ?st3 = "update_status ?st2 i ''generating'' ''Generating PDF report...''"
  from update_status_running [where st = sta and i = i and s = "''extracting''", OF ea]
  obtain e1 where e1: "?st1 i = Some e1" "running e1" by (auto simp: terminal_def)
  from update_status_running [where st = "?st1" and i = i and s = "''analyzing''", OF e1]
  obtain e2 where e2: "?st2 i = Some e2" "running e2" by (auto simp: terminal_def)
  from update_status_running [where st = "?st2" and i = i and s = "''generating''", OF e2]
  obtain e3 where e3: "?st3 i = Some e3" "running e3" by (auto simp: terminal_def)
  note inv = running_inv [OF e1(2)] running_inv [OF e2(2)] running_inv [OF e3(2)]
  show ?thesis
  proof (cases "get_pdf env payload")
    case (Inl err)
    then show ?thesis using e1 inv by (simp add: run_try_def Let_def)
  next
    case (Inr p)
    obtain x ev where p: "p = (x, ev)" by (cases p)
    show ?thesis
    proof (cases "ex_success x")
      case False
      then show ?thesis using Inr p e1 inv by (simp add: run_try_def Let_def)
    next
      case x: True
      show ?thesis
      proof (cases "analyze_request env payload (ex_text x)")
        case (Inl err)
        then show ?thesis using Inr p x e1 e2 inv by (simp add: run_try_def Let_def)
      next
        case res: (Inr res)
      show ?thesis
      proof (cases "ar_success res")
        case False
        then show ?thesis using Inr p x res e1 e2 inv by (simp add: run_try_def Let_def)
      next
        case a: True
        let ?data = "ar_analysis_data res"
        let ?rep = "generate_report env ?data (REPORTS_DIR (cfg env))"
        let ?rp = "if \<not> rr_success ?rep then PNone else rr_report_path ?rep"
        let ?cn = "payload_get payload ''client_name'' (PStr ''Unknown Client'')"
        let ?rs3 = "\<lparr>rs_store = ?st3, rs_trace = [?st1, ?st2, ?st3],
           rs_events = [ev, AnalyzePolicy (ex_text x), GenerateReport ?data],
           rs_raised = None\<rparr>"
        show ?thesis
        proof (cases "build_result env ?st3 i payload ?cn ?data ?rp")
          case (Inl err)
          then show ?thesis using Inr p x res a e1 e2 e3 inv
            by (simp add: run_try_def Let_def)
        next
          case r: (Inr r)
          have t: "run_try env sta i payload = finish env ?rs3 i payload r"
            using Inr p x res a r by (simp add: run_try_def Let_def)
          have s: "rs_store ?rs3 i = Some e3" using e3 by simp
          from finish_inv [where rs = "?rs3" and env = env and payload = payload, OF s e3(2)
              build_result_completed_at [OF r]]
          show ?thesis unfolding t using e1 e2 e3 inv by auto
        qed
      qed
      qed
    qed
  qed
qed

text \<open>
  C4. Every run writes the entry of its job at least once, starting with the fresh
  entry in state \<open>started\<close>, and after each write (creation, the intermediate stage
  updates, the completed update, the failed update) the entry satisfies the invariant:
  \<open>completed_at\<close> is set if and only if the status is \<open>completed\<close> or \<open>failed\<close>, and
  \<open>result\<close> is set if and only if the status is \<open>completed\<close>. The store the run leaves
  is the one after its last write.
\<close>

theorem run_keeps_job_invariant:
  "rs_trace (run_policy_analysis env st i payload) \<noteq> [] \<and>
   hd (rs_trace (run_policy_analysis env st i payload)) i
     = Some (initial_entry i (now_started env)) \<and>
   rs_store (run_policy_analysis env st i payload)
     = last (rs_trace (run_policy_analysis env st i payload)) \<and>
   (\<forall>s\<in>set (rs_trace (run_policy_analysis env st i payload)).
      \<exists>e. s i = Some e \<and> job_inv e)"
proof -
  let ?st0 = "init_status st i (now_started env)"
  let ?rs = "run_try env ?st0 i payload"
  have e0: "?st0 i = Some (initial_entry i (now_started env))" by (simp add: init_status_def)
  note t = run_try_inv [where sta = "?st0" and i = i and env = env and payload = payload,
      OF e0 running_init]
  have i0: "job_inv (initial_entry i (now_started env))" by (rule running_inv [OF running_init])
  show ?thesis
  proof (cases "rs_raised ?rs")
    case None
    then have "run_policy_analysis env st i payload = ?rs\<lparr>rs_trace := ?st0 # rs_trace ?rs\<rparr>"
      by (simp add: run_policy_analysis_def run_from_def Let_def)
    then show ?thesis using t e0 i0 by auto
  next
    case (Some err)
    then obtain e where e: "rs_store ?rs i = Some e" "running e" using t by auto
    let ?rx = "run_except env ?rs i payload err"
    have r: "run_policy_analysis env st i payload = ?rx\<lparr>rs_trace := ?st0 # rs_trace ?rx\<rparr>"
      using Some by (simp add: run_policy_analysis_def run_from_def Let_def)
    from run_except_inv [where rs = "?rs" and i = i and env = env and payload = payload
      and err = err, OF e]
    show ?thesis unfolding r using t e0 i0 by auto
  qed
qed

theorem run_keeps_job_invariant_witness:
  "rs_store (run_policy_analysis sample_env sample_store ''job-1'' sample_payload)
     \<in> set (rs_trace (run_policy_analysis sample_env sample_store ''job-1'' sample_payload)) \<and>
   (\<exists>e. rs_store (run_policy_analysis sample_env sample_store ''job-1'' sample_payload) ''job-1''
          = Some e \<and> job_inv e \<and> entry_get e ''status'' = PStr ''completed'')"
proof -
  let ?run = "run_policy_analysis sample_env sample_store ''job-1'' sample_payload"
  note t = run_keeps_job_invariant [of sample_env sample_store "''job-1''" sample_payload]
  then have m: "rs_store ?run \<in> set (rs_trace ?run)" by (metis last_in_set)
  with t obtain e where e: "rs_store ?run ''job-1'' = Some e" "job_inv e" by blast
  have "map_option (\<lambda>e. entry_get e ''status'') (rs_store ?run ''job-1'') = Some (PStr ''completed'')"
    by code_simp
  with e m show ?thesis by auto
qed

section \<open>The response parser: the cascade\<close>

subsection \<open>The matcher and the scans\<close>







declare rmatch.simps(5) [simp del] rmatch.simps(6) [simp del]











lemma not_space_backquote [simp]: "\<not> is_space (CHR 0x60)"
  by (simp add: is_space_def)


lemma at_fence_Nil [simp]: "\<not> at_fence []"
  by (simp add: at_fence_def fence_def)






lemma fence_not_Nil [simp]: "fence \<noteq> []"
  by (simp add: fence_def)

lemma split_on_fence_Nil [simp]: "split_on fence [] = None"
  by simp


declare split_on.simps [simp del]






























end
